theory Spec2Isabelle
  imports Main
begin

section \<open>RBAC resource types and resources (zen\_server/rbac/models.py)\<close>

text \<open>
  The members of the \<open>ResourceType\<close> string enumeration, in the order of the source.
  \<open>USER\<close> and \<open>WORKSPACE\<close> are commented out in the source and are no members.
\<close>

datatype ResourceType =
    ACTION
  | ARTIFACT
  | ARTIFACT_VERSION
  | CODE_REPOSITORY
  | EVENT_SOURCE
  | FLAVOR
  | MODEL
  | MODEL_VERSION
  | PIPELINE
  | PIPELINE_RUN
  | PIPELINE_DEPLOYMENT
  | PIPELINE_BUILD
  | RUN_TEMPLATE
  | SERVICE
  | RUN_METADATA
  | SECRET
  | SERVICE_ACCOUNT
  | SERVICE_CONNECTOR
  | STACK
  | STACK_COMPONENT
  | TAG
  | TRIGGER
  | TRIGGER_EXECUTION

text \<open>The string value of each member.\<close>

fun ResourceType_value :: "ResourceType \<Rightarrow> string" where
  "ResourceType_value ACTION = ''action''"
| "ResourceType_value ARTIFACT = ''artifact''"
| "ResourceType_value ARTIFACT_VERSION = ''artifact_version''"
| "ResourceType_value CODE_REPOSITORY = ''code_repository''"
| "ResourceType_value EVENT_SOURCE = ''event_source''"
| "ResourceType_value FLAVOR = ''flavor''"
| "ResourceType_value MODEL = ''model''"
| "ResourceType_value MODEL_VERSION = ''model_version''"
| "ResourceType_value PIPELINE = ''pipeline''"
| "ResourceType_value PIPELINE_RUN = ''pipeline_run''"
| "ResourceType_value PIPELINE_DEPLOYMENT = ''pipeline_deployment''"
| "ResourceType_value PIPELINE_BUILD = ''pipeline_build''"
| "ResourceType_value RUN_TEMPLATE = ''run_template''"
| "ResourceType_value SERVICE = ''service''"
| "ResourceType_value RUN_METADATA = ''run_metadata''"
| "ResourceType_value SECRET = ''secret''"
| "ResourceType_value SERVICE_ACCOUNT = ''service_account''"
| "ResourceType_value SERVICE_CONNECTOR = ''service_connector''"
| "ResourceType_value STACK = ''stack''"
| "ResourceType_value STACK_COMPONENT = ''stack_component''"
| "ResourceType_value TAG = ''tag''"
| "ResourceType_value TRIGGER = ''trigger''"
| "ResourceType_value TRIGGER_EXECUTION = ''trigger_execution''"

definition ResourceType_members :: "ResourceType list" where
  "ResourceType_members =
     [ACTION, ARTIFACT, ARTIFACT_VERSION, CODE_REPOSITORY, EVENT_SOURCE, FLAVOR, MODEL,
      MODEL_VERSION, PIPELINE, PIPELINE_RUN, PIPELINE_DEPLOYMENT, PIPELINE_BUILD,
      RUN_TEMPLATE, SERVICE, RUN_METADATA, SECRET, SERVICE_ACCOUNT, SERVICE_CONNECTOR,
      STACK, STACK_COMPONENT, TAG, TRIGGER, TRIGGER_EXECUTION]"

text \<open>
  \<open>ResourceType(value)\<close>: the enumeration's lookup by value. Python raises
  \<open>ValueError\<close> for a string that is no member's value; here that is \<open>None\<close>.
\<close>

definition ResourceType_of_value :: "string \<Rightarrow> ResourceType option" where
  "ResourceType_of_value s = find (\<lambda>t. ResourceType_value t = s) ResourceType_members"

definition is_flexible_scoped :: "ResourceType \<Rightarrow> bool" where
  "is_flexible_scoped self \<longleftrightarrow>
     self \<in> set [FLAVOR, SECRET, SERVICE_CONNECTOR, STACK, STACK_COMPONENT]"

definition is_unscoped :: "ResourceType \<Rightarrow> bool" where
  "is_unscoped self \<longleftrightarrow> self \<in> set [SERVICE_ACCOUNT]"

definition is_workspace_scoped :: "ResourceType \<Rightarrow> bool" where
  "is_workspace_scoped self \<longleftrightarrow> \<not> is_flexible_scoped self \<and> \<not> is_unscoped self"

text \<open>
  A field \<open>f\<close> of a class \<open>C\<close> is the record field \<open>C_f\<close> throughout.
  A UUID is a 128-bit number; only its identity matters here. A \<open>UUID\<close> object is always
  truthy in Python, so \<open>not self.workspace_id\<close> holds exactly when the field is \<open>None\<close>.
\<close>

type_synonym UUID = nat




section \<open>Documents and their persisted form\<close>

text \<open>
  A Python \<open>str\<close> is a sequence of Unicode code points and a \<open>bytes\<close> object a
  sequence of bytes; both are lists of numbers here. \<open>ord\<close> is the code point of an
  ASCII character and \<open>str\<close> the Python string of an ASCII literal.
\<close>

type_synonym pystr = "nat list"
type_synonym bytes = "nat list"

definition ord :: "char \<Rightarrow> nat" where
  "ord c = of_char c"

definition str :: "string \<Rightarrow> pystr" where
  "str s = map ord s"

text \<open>
  A document: what \<open>json.loads\<close> can return, floating point numbers apart, which are
  not modelled. A dictionary is the list of its items in insertion order; in Python its
  keys are pairwise different (\<open>is_document\<close> below), and two dictionaries with the
  same items in the same order are equal.
\<close>

datatype json =
    JNull
  | JBool bool
  | JInt int
  | JStr pystr
  | JList "json list"
  | JDict "(pystr \<times> json) list"

text \<open>
  The exceptions of the codec: \<open>UnicodeEncodeError\<close> and \<open>UnicodeDecodeError\<close> of
  the UTF-8 codec, \<open>binascii.Error\<close>, and \<open>json.JSONDecodeError\<close> with its message.
  \<open>Float_not_modelled\<close> stands for the result of the decoder on a number with a
  fraction or an exponent and on \<open>NaN\<close> and \<open>Infinity\<close>. \<open>Out_of_fuel\<close> is the
  result of the decoder when its recursion budget is used up, which does not happen
  with the budget that \<open>json_loads\<close> gives it (\<open>json_loads_fuel\<close> below).
\<close>

datatype error =
    UnicodeEncodeError
  | UnicodeDecodeError
  | binascii_Error
  | JSONDecodeError string
  | Float_not_modelled
  | Out_of_fuel

subsection \<open>\<open>json.dumps\<close>\<close>

text \<open>
  \<open>json.dumps(obj)\<close> with its default arguments: \<open>ensure_ascii=True\<close>, the
  separators \<open>", "\<close> and \<open>": "\<close>, no indentation, keys in insertion order.
\<close>

definition QUOTE :: nat where "QUOTE = 0x22"
definition BACKSLASH_CHAR :: nat where "BACKSLASH_CHAR = 0x5C"

text \<open>
  \<open>int.__repr__\<close>: the decimal digits, after a minus sign for a negative number.
\<close>

fun decimal_digits :: "nat \<Rightarrow> pystr" where
  "decimal_digits n =
     (if n < 10 then [ord CHR ''0'' + n]
      else decimal_digits (n div 10) @ [ord CHR ''0'' + n mod 10])"

declare decimal_digits.simps [simp del]

definition int_repr :: "int \<Rightarrow> pystr" where
  "int_repr i = (if i < 0 then ord CHR ''-'' # decimal_digits (nat (- i)) else decimal_digits (nat i))"

text \<open>
  \<open>'{0:04x}'.format(n)\<close>: lower case hexadecimal digits, padded with zeros to four.
\<close>

definition hex_digit :: "nat \<Rightarrow> nat" where
  "hex_digit d = (if d < 10 then ord CHR ''0'' + d else ord CHR ''a'' + (d - 10))"

fun hex_digits :: "nat \<Rightarrow> pystr" where
  "hex_digits n =
     (if n < 16 then [hex_digit n] else hex_digits (n div 16) @ [hex_digit (n mod 16)])"

declare hex_digits.simps [simp del]

definition format_04x :: "nat \<Rightarrow> pystr" where
  "format_04x n = replicate (4 - length (hex_digits n)) (ord CHR ''0'') @ hex_digits n"

text \<open>
  \<open>py_encode_basestring_ascii\<close>. \<open>ESCAPE_DCT\<close> holds the short escapes and the
  \<open>\u\<close> escapes of the other control characters; \<open>replace\<close> is the function of that
  name, which escapes a code point above \<open>0xFFFF\<close> as a surrogate pair; \<open>escape\<close>
  applies it to the characters that \<open>ESCAPE_ASCII\<close> matches: the backslash, the double
  quote and everything outside the range from the space to the tilde.
\<close>

definition ESCAPE_DCT :: "nat \<Rightarrow> pystr option" where
  "ESCAPE_DCT c =
     (if c = BACKSLASH_CHAR then Some [BACKSLASH_CHAR, BACKSLASH_CHAR]
      else if c = QUOTE then Some [BACKSLASH_CHAR, QUOTE]
      else if c = 0x08 then Some [BACKSLASH_CHAR, ord CHR ''b'']
      else if c = 0x0C then Some [BACKSLASH_CHAR, ord CHR ''f'']
      else if c = 0x0A then Some [BACKSLASH_CHAR, ord CHR ''n'']
      else if c = 0x0D then Some [BACKSLASH_CHAR, ord CHR ''r'']
      else if c = 0x09 then Some [BACKSLASH_CHAR, ord CHR ''t'']
      else if c < 0x20 then Some ([BACKSLASH_CHAR, ord CHR ''u''] @ format_04x c)
      else None)"

definition replace :: "nat \<Rightarrow> pystr" where
  "replace c =
     (case ESCAPE_DCT c of
        Some r \<Rightarrow> r
      | None \<Rightarrow>
          if c < 0x10000 then [BACKSLASH_CHAR, ord CHR ''u''] @ format_04x c
          else
            let n = c - 0x10000;
                s1 = or 0xd800 (and (drop_bit 10 n) 0x3ff);
                s2 = or 0xdc00 (and n 0x3ff)
            in [BACKSLASH_CHAR, ord CHR ''u''] @ format_04x s1 @
               [BACKSLASH_CHAR, ord CHR ''u''] @ format_04x s2)"

definition escape :: "nat \<Rightarrow> pystr" where
  "escape c =
     (if c = BACKSLASH_CHAR \<or> c = QUOTE \<or> \<not> (0x20 \<le> c \<and> c \<le> 0x7E) then replace c
      else [c])"

definition encode_basestring_ascii :: "pystr \<Rightarrow> pystr" where
  "encode_basestring_ascii s = [QUOTE] @ concat (map escape s) @ [QUOTE]"

text \<open>
  \<open>_iterencode\<close>, \<open>_iterencode_list\<close> and \<open>_iterencode_dict\<close>, with the chunks they
  yield joined.
\<close>

fun iterencode :: "json \<Rightarrow> pystr"
  and iterencode_list :: "json list \<Rightarrow> pystr"
  and iterencode_dict :: "(pystr \<times> json) list \<Rightarrow> pystr" where
  "iterencode JNull = str ''null''"
| "iterencode (JBool b) = (if b then str ''true'' else str ''false'')"
| "iterencode (JInt i) = int_repr i"
| "iterencode (JStr s) = encode_basestring_ascii s"
| "iterencode (JList lst) = (if lst = [] then str ''[]'' else str ''['' @ iterencode_list lst @ str '']'')"
| "iterencode (JDict dct) = (if dct = [] then str ''{}'' else str ''{'' @ iterencode_dict dct @ str ''}'')"
| "iterencode_list [] = []"
| "iterencode_list [v] = iterencode v"
| "iterencode_list (v # w # vs) = iterencode v @ str '', '' @ iterencode_list (w # vs)"
| "iterencode_dict [] = []"
| "iterencode_dict [(k, v)] = encode_basestring_ascii k @ str '': '' @ iterencode v"
| "iterencode_dict ((k, v) # kv # kvs) =
     encode_basestring_ascii k @ str '': '' @ iterencode v @ str '', '' @ iterencode_dict (kv # kvs)"

definition json_dumps :: "json \<Rightarrow> pystr" where
  "json_dumps obj = iterencode obj"


subsection \<open>\<open>json.loads\<close>\<close>

text \<open>
  The decoder of \<open>json/decoder.py\<close> and \<open>json/scanner.py\<close>. The Python functions
  take the whole text and an index; the functions here take the text from that index on
  and return the text that is left where the Python functions return the index of the
  end. \<open>skip_ws\<close> is a match of \<open>WHITESPACE\<close>.
\<close>

definition WHITESPACE_STR :: pystr where
  "WHITESPACE_STR = [0x20, 0x09, 0x0A, 0x0D]"

definition skip_ws :: "pystr \<Rightarrow> pystr" where
  "skip_ws s = dropWhile (\<lambda>c. c \<in> set WHITESPACE_STR) s"

text \<open>
  The table of the short escapes, and \<open>_decode_uXXXX\<close>: the value of the four
  hexadecimal digits after \<open>\u\<close>, as the C implementation reads them (digits and the
  letters \<open>a\<close> to \<open>f\<close> in either case, nothing else).
\<close>

definition BACKSLASH :: "nat \<Rightarrow> nat option" where
  "BACKSLASH = map_of
     [(QUOTE, QUOTE), (BACKSLASH_CHAR, BACKSLASH_CHAR), (ord CHR ''/'', ord CHR ''/''),
      (ord CHR ''b'', 0x08), (ord CHR ''f'', 0x0C), (ord CHR ''n'', 0x0A),
      (ord CHR ''r'', 0x0D), (ord CHR ''t'', 0x09)]"

definition hex_value :: "nat \<Rightarrow> nat option" where
  "hex_value c =
     (if ord CHR ''0'' \<le> c \<and> c \<le> ord CHR ''9'' then Some (c - ord CHR ''0'')
      else if ord CHR ''a'' \<le> c \<and> c \<le> ord CHR ''f'' then Some (c - ord CHR ''a'' + 10)
      else if ord CHR ''A'' \<le> c \<and> c \<le> ord CHR ''F'' then Some (c - ord CHR ''A'' + 10)
      else None)"

definition decode_uXXXX :: "pystr \<Rightarrow> error + nat" where
  "decode_uXXXX s =
     (case map hex_value (take 4 s) of
        [Some a, Some b, Some c, Some d] \<Rightarrow> Inr (((a * 16 + b) * 16 + c) * 16 + d)
      | _ \<Rightarrow> Inl (JSONDecodeError ''Invalid uXXXX escape''))"

text \<open>
  \<open>py_scanstring\<close>, called on the text after the opening quote: it returns the decoded
  string and the text after the closing quote. A high surrogate escape followed by a low
  surrogate escape is one code point. \<open>append_char c r\<close> puts \<open>c\<close> in front of the
  string that the rest of the scan returns.
\<close>

definition append_char :: "nat \<Rightarrow> error + pystr \<times> pystr \<Rightarrow> error + pystr \<times> pystr" where
  "append_char c r = (case r of Inl e \<Rightarrow> Inl e | Inr (chunks, end) \<Rightarrow> Inr (c # chunks, end))"

fun scanstring :: "pystr \<Rightarrow> error + pystr \<times> pystr" where
  "scanstring [] = Inl (JSONDecodeError ''Unterminated string starting at'')"
| "scanstring (c # s) =
     (if c = QUOTE then Inr ([], s)
      else if c = BACKSLASH_CHAR then
        (case s of
           [] \<Rightarrow> Inl (JSONDecodeError ''Unterminated string starting at'')
         | esc # s1 \<Rightarrow>
             if esc \<noteq> ord CHR ''u'' then
               (case BACKSLASH esc of
                  None \<Rightarrow> Inl (JSONDecodeError ''Invalid escape'')
                | Some char \<Rightarrow> append_char char (scanstring s1))
             else
               (case decode_uXXXX s1 of
                  Inl e \<Rightarrow> Inl e
                | Inr uni \<Rightarrow>
                    if 0xd800 \<le> uni \<and> uni \<le> 0xdbff \<and>
                       take 2 (drop 4 s1) = [BACKSLASH_CHAR, ord CHR ''u'']
                    then
                      (case decode_uXXXX (drop 6 s1) of
                         Inl e \<Rightarrow> Inl e
                       | Inr uni2 \<Rightarrow>
                           if 0xdc00 \<le> uni2 \<and> uni2 \<le> 0xdfff
                           then append_char
                                  (0x10000 + (or (push_bit 10 (uni - 0xd800)) (uni2 - 0xdc00)))
                                  (scanstring (drop 10 s1))
                           else append_char uni (scanstring (drop 4 s1)))
                    else append_char uni (scanstring (drop 4 s1))))
      else if c < 0x20 then Inl (JSONDecodeError ''Invalid control character at'')
      else append_char c (scanstring s))"

text \<open>
  \<open>NUMBER_RE\<close>: an optional minus sign, then \<open>0\<close> or a digit other than \<open>0\<close> followed
  by digits, then an optional fraction and an optional exponent. \<open>match_number\<close>
  returns the three groups and the text left, \<open>None\<close> when the pattern does not match.
\<close>

definition is_digit :: "nat \<Rightarrow> bool" where
  "is_digit c \<longleftrightarrow> ord CHR ''0'' \<le> c \<and> c \<le> ord CHR ''9''"

definition match_frac :: "pystr \<Rightarrow> pystr \<times> pystr" where
  "match_frac s =
     (case s of
        c # d # s' \<Rightarrow>
          if c = ord CHR ''.'' \<and> is_digit d
          then (c # d # takeWhile is_digit s', dropWhile is_digit s')
          else ([], s)
      | _ \<Rightarrow> ([], s))"

definition match_exp :: "pystr \<Rightarrow> pystr \<times> pystr" where
  "match_exp s =
     (case s of
        c # d # s' \<Rightarrow>
          if c = ord CHR ''e'' \<or> c = ord CHR ''E'' then
            if is_digit d then (c # d # takeWhile is_digit s', dropWhile is_digit s')
            else if d = ord CHR ''-'' \<or> d = ord CHR ''+'' then
              (case s' of
                 d' # s'' \<Rightarrow>
                   if is_digit d'
                   then (c # d # d' # takeWhile is_digit s'', dropWhile is_digit s'')
                   else ([], s)
               | [] \<Rightarrow> ([], s))
            else ([], s)
          else ([], s)
      | _ \<Rightarrow> ([], s))"

definition match_integer :: "pystr \<Rightarrow> (pystr \<times> pystr) option" where
  "match_integer s =
     (case s of
        [] \<Rightarrow> None
      | d # s' \<Rightarrow>
          if d = ord CHR ''0'' then Some ([d], s')
          else if is_digit d then Some (d # takeWhile is_digit s', dropWhile is_digit s')
          else None)"

definition match_number :: "pystr \<Rightarrow> (pystr \<times> pystr \<times> pystr \<times> pystr) option" where
  "match_number s =
     (case (case s of
              c # s' \<Rightarrow>
                if c = ord CHR ''-''
                then map_option (\<lambda>(i, r). (c # i, r)) (match_integer s')
                else match_integer s
            | [] \<Rightarrow> None) of
        None \<Rightarrow> None
      | Some (integer, r) \<Rightarrow>
          let (frac, r1) = match_frac r; (exp, r2) = match_exp r1
          in Some (integer, frac, exp, r2))"

text \<open>
  \<open>int(integer)\<close> for the first group of the pattern.
\<close>

definition digits_value :: "pystr \<Rightarrow> nat" where
  "digits_value s = foldl (\<lambda>a d. 10 * a + (d - ord CHR ''0'')) 0 s"

definition parse_int :: "pystr \<Rightarrow> int" where
  "parse_int s =
     (case s of
        c # s' \<Rightarrow> if c = ord CHR ''-'' then - int (digits_value s') else int (digits_value s)
      | [] \<Rightarrow> 0)"

text \<open>
  \<open>dict(pairs)\<close>: a later value of a key replaces the earlier one in its place.
\<close>

fun dict_setitem :: "('k \<times> 'v) list \<Rightarrow> 'k \<Rightarrow> 'v \<Rightarrow> ('k \<times> 'v) list" where
  "dict_setitem [] k v = [(k, v)]"
| "dict_setitem ((k', v') # d) k v =
     (if k' = k then (k', v) # d else (k', v') # dict_setitem d k v)"

definition dict :: "('k \<times> 'v) list \<Rightarrow> ('k \<times> 'v) list" where
  "dict pairs = foldl (\<lambda>d (k, v). dict_setitem d k v) [] pairs"


text \<open>
  \<open>_scan_once\<close> on a value that is no object and no array: a string, a literal or a
  number.
\<close>

definition scan_atom :: "pystr \<Rightarrow> error + json \<times> pystr" where
  "scan_atom s =
     (if take 1 s = [QUOTE] then
        (case scanstring (drop 1 s) of Inl e \<Rightarrow> Inl e | Inr (v, end) \<Rightarrow> Inr (JStr v, end))
      else if take 4 s = str ''null'' then Inr (JNull, drop 4 s)
      else if take 4 s = str ''true'' then Inr (JBool True, drop 4 s)
      else if take 5 s = str ''false'' then Inr (JBool False, drop 5 s)
      else
        (case match_number s of
           Some (integer, frac, exp, end) \<Rightarrow>
             if frac \<noteq> [] \<or> exp \<noteq> [] then Inl Float_not_modelled
             else Inr (JInt (parse_int integer), end)
         | None \<Rightarrow>
             if take 3 s = str ''NaN'' \<or> take 8 s = str ''Infinity'' \<or>
                take 9 s = str ''-Infinity''
             then Inl Float_not_modelled
             else Inl (JSONDecodeError ''Expecting value'')))"

text \<open>
  The parts of \<open>JSONObject\<close> and \<open>JSONArray\<close> between the recursive calls.
  \<open>object_start\<close> reads up to the first key or the closing brace (the flag tells which),
  \<open>object_colon\<close> the colon after a key, \<open>object_next\<close> the closing brace or the comma
  and the opening quote of the next key; \<open>array_start\<close> and \<open>array_next\<close> do the same
  for the brackets and commas of an array. Whitespace is skipped where the source skips it.
\<close>

definition object_start :: "pystr \<Rightarrow> error + bool \<times> pystr" where
  "object_start s =
     (case skip_ws s of
        [] \<Rightarrow> Inl (JSONDecodeError ''Expecting property name enclosed in double quotes'')
      | nextchar # s1 \<Rightarrow>
          if nextchar = ord CHR ''}'' then Inr (True, s1)
          else if nextchar \<noteq> QUOTE then
            Inl (JSONDecodeError ''Expecting property name enclosed in double quotes'')
          else Inr (False, s1))"

definition object_colon :: "pystr \<Rightarrow> error + pystr" where
  "object_colon s =
     (case skip_ws s of
        [] \<Rightarrow> Inl (JSONDecodeError ''Expecting : delimiter'')
      | c # s1 \<Rightarrow>
          if c \<noteq> ord CHR '':'' then Inl (JSONDecodeError ''Expecting : delimiter'')
          else Inr (skip_ws s1))"

definition object_next :: "pystr \<Rightarrow> error + bool \<times> pystr" where
  "object_next s =
     (case skip_ws s of
        [] \<Rightarrow> Inl (JSONDecodeError ''Expecting , delimiter'')
      | nextchar # s1 \<Rightarrow>
          if nextchar = ord CHR ''}'' then Inr (True, s1)
          else if nextchar \<noteq> ord CHR '','' then Inl (JSONDecodeError ''Expecting , delimiter'')
          else
            (case skip_ws s1 of
               [] \<Rightarrow> Inl (JSONDecodeError ''Expecting property name enclosed in double quotes'')
             | q # s2 \<Rightarrow>
                 if q \<noteq> QUOTE then
                   Inl (JSONDecodeError ''Expecting property name enclosed in double quotes'')
                 else Inr (False, s2)))"

definition array_start :: "pystr \<Rightarrow> bool \<times> pystr" where
  "array_start s =
     (case skip_ws s of
        [] \<Rightarrow> (False, [])
      | nextchar # s1 \<Rightarrow> if nextchar = ord CHR '']'' then (True, s1) else (False, nextchar # s1))"

definition array_next :: "pystr \<Rightarrow> error + bool \<times> pystr" where
  "array_next s =
     (case skip_ws s of
        [] \<Rightarrow> Inl (JSONDecodeError ''Expecting , delimiter'')
      | nextchar # s1 \<Rightarrow>
          if nextchar = ord CHR '']'' then Inr (True, s1)
          else if nextchar \<noteq> ord CHR '','' then Inl (JSONDecodeError ''Expecting , delimiter'')
          else Inr (False, skip_ws s1))"

text \<open>
  \<open>_scan_once\<close>, and the loops of \<open>JSONObject\<close> (entered after the opening quote of a
  key) and \<open>JSONArray\<close> (entered at a value). The first argument is the recursion
  budget: every call uses one unit.
\<close>

fun scan_once :: "nat \<Rightarrow> pystr \<Rightarrow> error + json \<times> pystr"
  and JSONObject :: "nat \<Rightarrow> pystr \<Rightarrow> error + (pystr \<times> json) list \<times> pystr"
  and JSONArray :: "nat \<Rightarrow> pystr \<Rightarrow> error + json list \<times> pystr" where
  "scan_once 0 s = Inl Out_of_fuel"
| "scan_once (Suc n) s =
     (if take 1 s = [ord CHR ''{''] then
        (case object_start (drop 1 s) of
           Inl e \<Rightarrow> Inl e
         | Inr (closed, s1) \<Rightarrow>
             if closed then Inr (JDict [], s1)
             else
               (case JSONObject n s1 of
                  Inl e \<Rightarrow> Inl e
                | Inr (pairs, end) \<Rightarrow> Inr (JDict (dict pairs), end)))
      else if take 1 s = [ord CHR ''[''] then
        (case array_start (drop 1 s) of
           (closed, s1) \<Rightarrow>
             if closed then Inr (JList [], s1)
             else
               (case JSONArray n s1 of
                  Inl e \<Rightarrow> Inl e
                | Inr (values, end) \<Rightarrow> Inr (JList values, end)))
      else scan_atom s)"
| "JSONObject 0 s = Inl Out_of_fuel"
| "JSONObject (Suc n) s =
     (case scanstring s of
        Inl e \<Rightarrow> Inl e
      | Inr (key, s1) \<Rightarrow>
          (case object_colon s1 of
             Inl e \<Rightarrow> Inl e
           | Inr s2 \<Rightarrow>
               (case scan_once n s2 of
                  Inl e \<Rightarrow> Inl e
                | Inr (value, s3) \<Rightarrow>
                    (case object_next s3 of
                       Inl e \<Rightarrow> Inl e
                     | Inr (closed, s4) \<Rightarrow>
                         if closed then Inr ([(key, value)], s4)
                         else
                           (case JSONObject n s4 of
                              Inl e \<Rightarrow> Inl e
                            | Inr (pairs, end) \<Rightarrow> Inr ((key, value) # pairs, end))))))"
| "JSONArray 0 s = Inl Out_of_fuel"
| "JSONArray (Suc n) s =
     (case scan_once n s of
        Inl e \<Rightarrow> Inl e
      | Inr (value, s1) \<Rightarrow>
          (case array_next s1 of
             Inl e \<Rightarrow> Inl e
           | Inr (closed, s2) \<Rightarrow>
               if closed then Inr ([value], s2)
               else
                 (case JSONArray n s2 of
                    Inl e \<Rightarrow> Inl e
                  | Inr (values, end) \<Rightarrow> Inr (value # values, end))))"

text \<open>
  \<open>json.loads(s)\<close> for a string: \<open>JSONDecoder.decode\<close>, after the test for a byte order
  mark. The budget is more than twice the length of the text.
\<close>

definition json_loads :: "pystr \<Rightarrow> error + json" where
  "json_loads s =
     (if take 1 s = [0xFEFF] then Inl (JSONDecodeError ''Unexpected UTF-8 BOM'')
      else
        (case scan_once (Suc (length s + length s)) (skip_ws s) of
           Inl e \<Rightarrow> Inl e
         | Inr (obj, end) \<Rightarrow>
             if skip_ws end \<noteq> [] then Inl (JSONDecodeError ''Extra data'') else Inr obj))"


definition append_str :: "nat \<Rightarrow> error + pystr \<Rightarrow> error + pystr" where
  "append_str c r = (case r of Inl e \<Rightarrow> Inl e | Inr s \<Rightarrow> Inr (c # s))"

subsection \<open>\<open>str.encode("utf-8")\<close> and \<open>bytes.decode()\<close>\<close>

text \<open>
  UTF-8 with the \<open>strict\<close> error handler: a surrogate code point cannot be encoded, and
  the decoder refuses overlong forms, encoded surrogates and values above \<open>0x10FFFF\<close>.
\<close>

definition utf8_encode_char :: "nat \<Rightarrow> error + bytes" where
  "utf8_encode_char c =
     (if c < 0x80 then Inr [c]
      else if c < 0x800 then Inr [0xC0 + c div 64, 0x80 + c mod 64]
      else if 0xD800 \<le> c \<and> c \<le> 0xDFFF then Inl UnicodeEncodeError
      else if c < 0x10000 then Inr [0xE0 + c div 4096, 0x80 + c div 64 mod 64, 0x80 + c mod 64]
      else if c < 0x110000 then
        Inr [0xF0 + c div 262144, 0x80 + c div 4096 mod 64, 0x80 + c div 64 mod 64,
             0x80 + c mod 64]
      else Inl UnicodeEncodeError)"

fun utf8_encode :: "pystr \<Rightarrow> error + bytes" where
  "utf8_encode [] = Inr []"
| "utf8_encode (c # s) =
     (case utf8_encode_char c of
        Inl e \<Rightarrow> Inl e
      | Inr b \<Rightarrow> (case utf8_encode s of Inl e \<Rightarrow> Inl e | Inr bs \<Rightarrow> Inr (b @ bs)))"

definition is_continuation :: "nat \<Rightarrow> bool" where
  "is_continuation b \<longleftrightarrow> 0x80 \<le> b \<and> b \<le> 0xBF"

fun utf8_decode :: "bytes \<Rightarrow> error + pystr" where
  "utf8_decode [] = Inr []"
| "utf8_decode (b0 # bs) =
     (if b0 < 0x80 then append_str b0 (utf8_decode bs)
      else if 0xC2 \<le> b0 \<and> b0 \<le> 0xDF then
        (case bs of
           b1 # bs1 \<Rightarrow>
             if is_continuation b1
             then append_str ((b0 - 0xC0) * 64 + (b1 - 0x80)) (utf8_decode bs1)
             else Inl UnicodeDecodeError
         | _ \<Rightarrow> Inl UnicodeDecodeError)
      else if 0xE0 \<le> b0 \<and> b0 \<le> 0xEF then
        (case bs of
           b1 # b2 # bs2 \<Rightarrow>
             if is_continuation b1 \<and> is_continuation b2 \<and>
                (if b0 = 0xE0 then 0xA0 \<le> b1 else if b0 = 0xED then b1 \<le> 0x9F else True)
             then append_str ((b0 - 0xE0) * 4096 + (b1 - 0x80) * 64 + (b2 - 0x80))
                    (utf8_decode bs2)
             else Inl UnicodeDecodeError
         | _ \<Rightarrow> Inl UnicodeDecodeError)
      else if 0xF0 \<le> b0 \<and> b0 \<le> 0xF4 then
        (case bs of
           b1 # b2 # b3 # bs3 \<Rightarrow>
             if is_continuation b1 \<and> is_continuation b2 \<and> is_continuation b3 \<and>
                (if b0 = 0xF0 then 0x90 \<le> b1 else if b0 = 0xF4 then b1 \<le> 0x8F else True)
             then append_str
                    ((b0 - 0xF0) * 262144 + (b1 - 0x80) * 4096 + (b2 - 0x80) * 64 + (b3 - 0x80))
                    (utf8_decode bs3)
             else Inl UnicodeDecodeError
         | _ \<Rightarrow> Inl UnicodeDecodeError)
      else Inl UnicodeDecodeError)"

subsection \<open>\<open>base64.b64encode\<close> and \<open>base64.b64decode\<close>\<close>

text \<open>
  \<open>b64encode(s)\<close> is \<open>binascii.b2a_base64(s, newline=False)\<close> and \<open>b64decode(s)\<close> is
  \<open>binascii.a2b_base64(s, strict_mode=False)\<close>, both with the standard alphabet.
  A byte is a number below 256.
\<close>

definition table_b2a_base64 :: bytes where
  "table_b2a_base64 =
     str ''ABCDEFGHIJKLMNOPQRSTUVWXYZabcdefghijklmnopqrstuvwxyz0123456789+/''"

definition BASE64_PAD :: nat where
  "BASE64_PAD = ord CHR ''=''"

fun b2a_base64 :: "bytes \<Rightarrow> bytes" where
  "b2a_base64 [] = []"
| "b2a_base64 [a] =
     [table_b2a_base64 ! (a div 4), table_b2a_base64 ! (a mod 4 * 16), BASE64_PAD, BASE64_PAD]"
| "b2a_base64 [a, b] =
     [table_b2a_base64 ! (a div 4), table_b2a_base64 ! (a mod 4 * 16 + b div 16),
      table_b2a_base64 ! (b mod 16 * 4), BASE64_PAD]"
| "b2a_base64 (a # b # c # bin_data) =
     [table_b2a_base64 ! (a div 4), table_b2a_base64 ! (a mod 4 * 16 + b div 16),
      table_b2a_base64 ! (b mod 16 * 4 + c div 64), table_b2a_base64 ! (c mod 64)] @
     b2a_base64 bin_data"

definition b64encode :: "bytes \<Rightarrow> bytes" where
  "b64encode s = b2a_base64 s"

text \<open>
  The inverse table: the value of a character of the alphabet, \<open>None\<close> for every other
  byte (the C table holds an out-of-range marker there).
\<close>

definition table_a2b_base64 :: "nat \<Rightarrow> nat option" where
  "table_a2b_base64 c =
     (if ord CHR ''A'' \<le> c \<and> c \<le> ord CHR ''Z'' then Some (c - ord CHR ''A'')
      else if ord CHR ''a'' \<le> c \<and> c \<le> ord CHR ''z'' then Some (c - ord CHR ''a'' + 26)
      else if ord CHR ''0'' \<le> c \<and> c \<le> ord CHR ''9'' then Some (c - ord CHR ''0'' + 52)
      else if c = ord CHR ''+'' then Some 62
      else if c = ord CHR ''/'' then Some 63
      else None)"

definition append_byte :: "nat \<Rightarrow> error + bytes \<Rightarrow> error + bytes" where
  "append_byte b r = (case r of Inl e \<Rightarrow> Inl e | Inr bin_data \<Rightarrow> Inr (b # bin_data))"

text \<open>
  The decoding loop of \<open>a2b_base64\<close> in its non-strict mode, with its state
  \<open>quad_pos\<close>, \<open>leftchar\<close> and \<open>pads\<close>: a byte outside the alphabet is skipped, a
  padding character that completes a quad ends the decoding, and input that ends inside
  a quad is an error (\<open>Incorrect padding\<close>).
\<close>

fun a2b_base64_loop :: "nat \<Rightarrow> nat \<Rightarrow> nat \<Rightarrow> bytes \<Rightarrow> error + bytes" where
  "a2b_base64_loop quad_pos leftchar pads [] =
     (if quad_pos \<noteq> 0 then Inl binascii_Error else Inr [])"
| "a2b_base64_loop quad_pos leftchar pads (this_ch # ascii_data) =
     (if this_ch = BASE64_PAD then
        (if quad_pos \<ge> 2 then
           (if quad_pos + (pads + 1) \<ge> 4 then Inr []
            else a2b_base64_loop quad_pos leftchar (pads + 1) ascii_data)
         else a2b_base64_loop quad_pos leftchar pads ascii_data)
      else
        (case table_a2b_base64 this_ch of
           None \<Rightarrow> a2b_base64_loop quad_pos leftchar pads ascii_data
         | Some v \<Rightarrow>
             if quad_pos = 0 then a2b_base64_loop 1 v 0 ascii_data
             else if quad_pos = 1 then
               append_byte ((leftchar * 4 + v div 16) mod 256)
                 (a2b_base64_loop 2 (v mod 16) 0 ascii_data)
             else if quad_pos = 2 then
               append_byte ((leftchar * 16 + v div 4) mod 256)
                 (a2b_base64_loop 3 (v mod 4) 0 ascii_data)
             else
               append_byte ((leftchar * 64 + v) mod 256)
                 (a2b_base64_loop 0 0 0 ascii_data)))"

definition b64decode :: "bytes \<Rightarrow> error + bytes" where
  "b64decode s = a2b_base64_loop 0 0 0 s"

subsection \<open>The persisted form of a document\<close>

text \<open>
  \<open>base64.b64encode(json.dumps(document).encode("utf-8"))\<close>, as in
  \<open>TriggerSchema.from_request\<close> and \<open>TriggerSchema.update\<close>, and
  \<open>json.loads(base64.b64decode(blob).decode())\<close>, as in \<open>TriggerSchema.to_model\<close>.
\<close>

definition encode_document :: "json \<Rightarrow> error + bytes" where
  "encode_document document =
     (case utf8_encode (json_dumps document) of
        Inl e \<Rightarrow> Inl e
      | Inr b \<Rightarrow> Inr (b64encode b))"

definition decode_document :: "bytes \<Rightarrow> error + json" where
  "decode_document blob =
     (case b64decode blob of
        Inl e \<Rightarrow> Inl e
      | Inr b \<Rightarrow> (case utf8_decode b of Inl e \<Rightarrow> Inl e | Inr s \<Rightarrow> json_loads s))"

subsection \<open>Well-formed documents\<close>





subsection \<open>Notions used in the proofs\<close>




section \<open>Trigger schemas (zen\_stores/schemas/trigger\_schemas.py)\<close>

text \<open>
  A \<open>datetime\<close> is a point on the clock; \<open>datetime.utcnow()\<close> is the parameter
  \<open>now\<close> of the functions that read the clock.
\<close>

type_synonym datetime = nat

subsection \<open>Requests and updates\<close>

text \<open>
  The request and update models live in \<open>zenml.models\<close>, outside the excerpt; only the
  fields that the schema methods read are kept. \<open>event_filter\<close> and \<open>action\<close> are
  documents.
\<close>

record TriggerRequest =
  TriggerRequest_name :: string
  TriggerRequest_workspace :: UUID
  TriggerRequest_user :: "UUID option"
  TriggerRequest_action :: json
  TriggerRequest_action_flavor :: string
  TriggerRequest_action_subtype :: string
  TriggerRequest_event_source_id :: UUID
  TriggerRequest_event_filter :: json
  TriggerRequest_description :: string

text \<open>
  Every field of an update is optional. \<open>TriggerUpdate_fields_set\<close> is pydantic's record
  of the fields that the caller supplied, whatever their value.
\<close>

record TriggerUpdate =
  TriggerUpdate_name :: "string option"
  TriggerUpdate_description :: "string option"
  TriggerUpdate_event_filter :: "json option"
  TriggerUpdate_action :: "json option"
  TriggerUpdate_is_active :: "bool option"
  TriggerUpdate_fields_set :: "string list"

text \<open>
  A value of the dictionary that \<open>trigger_update.dict(...)\<close> returns. \<open>update\<close> reads
  the value of a document field from the update itself and never from the dictionary,
  so the dictionary's copy of a document carries no content here.
\<close>

datatype update_value = VStr string | VBool bool | VDict

text \<open>
  \<open>trigger_update.dict(exclude_unset=True, exclude_none=True)\<close>: the fields that were
  supplied and are not \<open>None\<close>, in the order of their declaration.
\<close>

definition TriggerUpdate_dict :: "TriggerUpdate \<Rightarrow> (string \<times> update_value) list" where
  "TriggerUpdate_dict trigger_update =
     List.map_filter
       (\<lambda>(field, value).
          if field \<in> set (TriggerUpdate_fields_set trigger_update)
          then map_option (Pair field) value else None)
       [(''name'', map_option VStr (TriggerUpdate_name trigger_update)),
        (''description'', map_option VStr (TriggerUpdate_description trigger_update)),
        (''event_filter'', map_option (\<lambda>_. VDict) (TriggerUpdate_event_filter trigger_update)),
        (''action'', map_option (\<lambda>_. VDict) (TriggerUpdate_action trigger_update)),
        (''is_active'', map_option VBool (TriggerUpdate_is_active trigger_update))]"

text \<open>
  The value of a field of an update if the field was supplied and is not \<open>None\<close>.
\<close>

definition supplied :: "TriggerUpdate \<Rightarrow> string \<Rightarrow> 'a option \<Rightarrow> 'a option" where
  "supplied trigger_update field value =
     (if field \<in> set (TriggerUpdate_fields_set trigger_update) then value else None)"

text \<open>An optional document as \<open>json.dumps\<close> sees it: \<open>None\<close> is \<open>null\<close>.\<close>

definition optional_document :: "json option \<Rightarrow> json" where
  "optional_document d = (case d of None \<Rightarrow> JNull | Some document \<Rightarrow> document)"

subsection \<open>\<open>TriggerSchema\<close>\<close>

text \<open>
  The columns of the \<open>trigger\<close> table. \<open>id\<close>, \<open>name\<close>, \<open>created\<close> and \<open>updated\<close> come
  from the base classes. The relationship attributes (\<open>workspace\<close>, \<open>user\<close>,
  \<open>event_source\<close>) are loaded by the ORM through the foreign keys; they are the record
  \<open>TriggerSchema_relationships\<close>, over the types \<open>'u\<close>, \<open>'w\<close>, \<open>'e\<close> of the user,
  workspace and event source rows, whose classes are outside the excerpt.
\<close>

record TriggerSchema =
  TriggerSchema_id :: UUID
  TriggerSchema_name :: string
  TriggerSchema_created :: datetime
  TriggerSchema_updated :: datetime
  TriggerSchema_workspace_id :: UUID
  TriggerSchema_user_id :: "UUID option"
  TriggerSchema_event_source_id :: UUID
  TriggerSchema_event_filter :: bytes
  TriggerSchema_action :: bytes
  TriggerSchema_action_flavor :: string
  TriggerSchema_action_subtype :: string
  TriggerSchema_description :: string
  TriggerSchema_is_active :: bool

record ('u, 'w, 'e) TriggerSchema_relationships =
  TriggerSchema_workspace :: 'w
  TriggerSchema_user :: "'u option"
  TriggerSchema_event_source :: 'e

text \<open>
  \<open>setattr(self, field, value)\<close> for the fields of an update that are no documents.
\<close>

definition setattr :: "TriggerSchema \<Rightarrow> string \<Rightarrow> update_value \<Rightarrow> TriggerSchema" where
  "setattr self field value =
     (if field = ''name'' then
        (case value of VStr v \<Rightarrow> self\<lparr>TriggerSchema_name := v\<rparr> | _ \<Rightarrow> self)
      else if field = ''description'' then
        (case value of VStr v \<Rightarrow> self\<lparr>TriggerSchema_description := v\<rparr> | _ \<Rightarrow> self)
      else if field = ''is_active'' then
        (case value of VBool v \<Rightarrow> self\<lparr>TriggerSchema_is_active := v\<rparr> | _ \<Rightarrow> self)
      else self)"

text \<open>The body of the loop of \<open>TriggerSchema.update\<close>, for one item of the dictionary.\<close>

definition update_item ::
  "TriggerUpdate \<Rightarrow> TriggerSchema \<Rightarrow> string \<times> update_value \<Rightarrow> error + TriggerSchema" where
  "update_item trigger_update self item =
     (case item of (field, value) \<Rightarrow>
        if field = ''event_filter'' then
          (case encode_document (optional_document (TriggerUpdate_event_filter trigger_update)) of
             Inl e \<Rightarrow> Inl e
           | Inr blob \<Rightarrow> Inr (self\<lparr>TriggerSchema_event_filter := blob\<rparr>))
        else if field = ''action'' then
          (case encode_document (optional_document (TriggerUpdate_action trigger_update)) of
             Inl e \<Rightarrow> Inl e
           | Inr blob \<Rightarrow> Inr (self\<lparr>TriggerSchema_action := blob\<rparr>))
        else Inr (setattr self field value))"

fun update_items ::
  "TriggerUpdate \<Rightarrow> TriggerSchema \<Rightarrow> (string \<times> update_value) list \<Rightarrow> error + TriggerSchema" where
  "update_items trigger_update self [] = Inr self"
| "update_items trigger_update self (item # items) =
     (case update_item trigger_update self item of
        Inl e \<Rightarrow> Inl e
      | Inr self' \<Rightarrow> update_items trigger_update self' items)"

definition update :: "datetime \<Rightarrow> TriggerSchema \<Rightarrow> TriggerUpdate \<Rightarrow> error + TriggerSchema" where
  "update now self trigger_update =
     (case update_items trigger_update self (TriggerUpdate_dict trigger_update) of
        Inl e \<Rightarrow> Inl e
      | Inr self' \<Rightarrow> Inr (self'\<lparr>TriggerSchema_updated := now\<rparr>))"

text \<open>
  \<open>TriggerSchema.from_request\<close>. The base class draws the new row's \<open>id\<close> and sets
  \<open>created\<close> and \<open>updated\<close> from the clock; they are the parameters \<open>new_id\<close> and
  \<open>now\<close>.
\<close>

definition from_request :: "UUID \<Rightarrow> datetime \<Rightarrow> TriggerRequest \<Rightarrow> error + TriggerSchema" where
  "from_request new_id now request =
     (case encode_document (TriggerRequest_action request) of
        Inl e \<Rightarrow> Inl e
      | Inr action_blob \<Rightarrow>
          (case encode_document (TriggerRequest_event_filter request) of
             Inl e \<Rightarrow> Inl e
           | Inr event_filter_blob \<Rightarrow>
               Inr \<lparr>TriggerSchema_id = new_id,
                    TriggerSchema_name = TriggerRequest_name request,
                    TriggerSchema_created = now,
                    TriggerSchema_updated = now,
                    TriggerSchema_workspace_id = TriggerRequest_workspace request,
                    TriggerSchema_user_id = TriggerRequest_user request,
                    TriggerSchema_event_source_id = TriggerRequest_event_source_id request,
                    TriggerSchema_event_filter = event_filter_blob,
                    TriggerSchema_action = action_blob,
                    TriggerSchema_action_flavor = TriggerRequest_action_flavor request,
                    TriggerSchema_action_subtype = TriggerRequest_action_subtype request,
                    TriggerSchema_description = TriggerRequest_description request,
                    TriggerSchema_is_active = True\<rparr>))"

subsection \<open>Responses\<close>

text \<open>
  The response that \<open>row.to_model(include_metadata=m, include_resources=r)\<close> returns for a
  row of a class outside the excerpt is kept symbolic, as \<open>To_model row m r\<close>; both
  flags default to \<open>False\<close>.
\<close>

datatype 'a to_model_result = To_model 'a bool bool

record 'u TriggerResponseBody =
  TriggerResponseBody_user :: "'u to_model_result option"
  TriggerResponseBody_created :: datetime
  TriggerResponseBody_updated :: datetime
  TriggerResponseBody_action_flavor :: string
  TriggerResponseBody_action_subtype :: string
  TriggerResponseBody_event_source_flavor :: string
  TriggerResponseBody_is_active :: bool

record ('w, 'e) TriggerResponseMetadata =
  TriggerResponseMetadata_workspace :: "'w to_model_result"
  TriggerResponseMetadata_event_filter :: json
  TriggerResponseMetadata_action :: json
  TriggerResponseMetadata_description :: string
  TriggerResponseMetadata_event_source :: "'e to_model_result"

record 'e TriggerResponseResources =
  TriggerResponseResources_event_source :: "'e to_model_result"

record ('u, 'w, 'e) TriggerResponse =
  TriggerResponse_id :: UUID
  TriggerResponse_name :: string
  TriggerResponse_body :: "'u TriggerResponseBody"
  TriggerResponse_metadata :: "('w, 'e) TriggerResponseMetadata option"
  TriggerResponse_resources :: "'e TriggerResponseResources option"

text \<open>
  \<open>TriggerSchema.to_model\<close>. \<open>flavor\<close> reads the \<open>flavor\<close> column of an event source
  row. The two documents are decoded only under \<open>include_metadata\<close>, and a blob that does
  not decode raises there.
\<close>

definition to_model ::
  "('e \<Rightarrow> string) \<Rightarrow> TriggerSchema \<Rightarrow> ('u, 'w, 'e) TriggerSchema_relationships \<Rightarrow>
   bool \<Rightarrow> bool \<Rightarrow> error + ('u, 'w, 'e) TriggerResponse" where
  "to_model flavor self rel include_metadata include_resources =
     (let body =
            \<lparr>TriggerResponseBody_user =
               (case TriggerSchema_user rel of
                  Some user \<Rightarrow> Some (To_model user False False)
                | None \<Rightarrow> None),
             TriggerResponseBody_created = TriggerSchema_created self,
             TriggerResponseBody_updated = TriggerSchema_updated self,
             TriggerResponseBody_action_flavor = TriggerSchema_action_flavor self,
             TriggerResponseBody_action_subtype = TriggerSchema_action_subtype self,
             TriggerResponseBody_event_source_flavor = flavor (TriggerSchema_event_source rel),
             TriggerResponseBody_is_active = TriggerSchema_is_active self\<rparr>;
          metadata =
            (if include_metadata then
               (case decode_document (TriggerSchema_event_filter self) of
                  Inl e \<Rightarrow> Inl e
                | Inr event_filter \<Rightarrow>
                    (case decode_document (TriggerSchema_action self) of
                       Inl e \<Rightarrow> Inl e
                     | Inr action \<Rightarrow>
                         Inr (Some
                           \<lparr>TriggerResponseMetadata_workspace =
                              To_model (TriggerSchema_workspace rel) False False,
                            TriggerResponseMetadata_event_filter = event_filter,
                            TriggerResponseMetadata_action = action,
                            TriggerResponseMetadata_description = TriggerSchema_description self,
                            TriggerResponseMetadata_event_source =
                              To_model (TriggerSchema_event_source rel) False False\<rparr>)))
             else Inr None);
          resources =
            (if include_resources then
               Some \<lparr>TriggerResponseResources_event_source =
                       To_model (TriggerSchema_event_source rel) False False\<rparr>
             else None)
      in case metadata of
           Inl e \<Rightarrow> Inl e
         | Inr metadata' \<Rightarrow>
             Inr \<lparr>TriggerResponse_id = TriggerSchema_id self,
                  TriggerResponse_name = TriggerSchema_name self,
                  TriggerResponse_body = body,
                  TriggerResponse_metadata = metadata',
                  TriggerResponse_resources = resources\<rparr>)"

subsection \<open>\<open>TriggerExecutionSchema\<close>\<close>

record TriggerExecutionSchema =
  TriggerExecutionSchema_id :: UUID
  TriggerExecutionSchema_created :: datetime
  TriggerExecutionSchema_updated :: datetime
  TriggerExecutionSchema_trigger_id :: UUID
  TriggerExecutionSchema_event_metadata :: "bytes option"

record ('u, 'w, 'e) TriggerExecutionResponseBody =
  TriggerExecutionResponseBody_trigger :: "('u, 'w, 'e) TriggerResponse"
  TriggerExecutionResponseBody_created :: datetime
  TriggerExecutionResponseBody_updated :: datetime

record TriggerExecutionResponseMetadata =
  TriggerExecutionResponseMetadata_event_metadata :: json

record ('u, 'w, 'e) TriggerExecutionResponse =
  TriggerExecutionResponse_id :: UUID
  TriggerExecutionResponse_body :: "('u, 'w, 'e) TriggerExecutionResponseBody"
  TriggerExecutionResponse_metadata :: "TriggerExecutionResponseMetadata option"

text \<open>
  \<open>TriggerExecutionSchema.to_model\<close>. The row's \<open>trigger\<close> relationship is the trigger
  row \<open>trigger\<close> with its own relationships \<open>rel\<close>. \<open>if self.event_metadata\<close> is the
  truth value of an optional byte string: false for \<open>None\<close> and for the empty string.
\<close>

definition execution_to_model ::
  "('e \<Rightarrow> string) \<Rightarrow> TriggerExecutionSchema \<Rightarrow> TriggerSchema \<Rightarrow>
   ('u, 'w, 'e) TriggerSchema_relationships \<Rightarrow> bool \<Rightarrow> bool \<Rightarrow>
   error + ('u, 'w, 'e) TriggerExecutionResponse" where
  "execution_to_model flavor self trigger rel include_metadata include_resources =
     (case to_model flavor trigger rel False False of
        Inl e \<Rightarrow> Inl e
      | Inr trigger_response \<Rightarrow>
          (let body =
                 \<lparr>TriggerExecutionResponseBody_trigger = trigger_response,
                  TriggerExecutionResponseBody_created = TriggerExecutionSchema_created self,
                  TriggerExecutionResponseBody_updated = TriggerExecutionSchema_updated self\<rparr>;
               metadata =
                 (if include_metadata then
                    (case (case TriggerExecutionSchema_event_metadata self of
                             None \<Rightarrow> Inr (JDict [])
                           | Some blob \<Rightarrow>
                               if blob \<noteq> [] then decode_document blob else Inr (JDict [])) of
                       Inl e \<Rightarrow> Inl e
                     | Inr event_metadata \<Rightarrow>
                         Inr (Some
                           \<lparr>TriggerExecutionResponseMetadata_event_metadata = event_metadata\<rparr>))
                  else Inr None)
           in case metadata of
                Inl e \<Rightarrow> Inl e
              | Inr metadata' \<Rightarrow>
                  Inr \<lparr>TriggerExecutionResponse_id = TriggerExecutionSchema_id self,
                       TriggerExecutionResponse_body = body,
                       TriggerExecutionResponse_metadata = metadata'\<rparr>))"

section \<open>The tables and their foreign keys\<close>

text \<open>
  The arguments of a \<open>build_foreign_key_field\<close> call: the declaration of a foreign key
  column. The policies that the two schemas declare are \<open>CASCADE\<close> and \<open>SET NULL\<close>.
\<close>

datatype ondelete = CASCADE | SET_NULL

record foreign_key =
  fk_source :: string
  fk_target :: string
  fk_source_column :: string
  fk_target_column :: string
  fk_ondelete :: ondelete
  fk_nullable :: bool

definition TriggerSchema_workspace_id_fk :: foreign_key where
  "TriggerSchema_workspace_id_fk =
     \<lparr>fk_source = ''trigger'', fk_target = ''workspace'', fk_source_column = ''workspace_id'',
      fk_target_column = ''id'', fk_ondelete = CASCADE, fk_nullable = False\<rparr>"

definition TriggerSchema_user_id_fk :: foreign_key where
  "TriggerSchema_user_id_fk =
     \<lparr>fk_source = ''trigger'', fk_target = ''user'', fk_source_column = ''user_id'',
      fk_target_column = ''id'', fk_ondelete = SET_NULL, fk_nullable = True\<rparr>"

definition TriggerSchema_event_source_id_fk :: foreign_key where
  "TriggerSchema_event_source_id_fk =
     \<lparr>fk_source = ''trigger'', fk_target = ''event_source'',
      fk_source_column = ''event_source_id'', fk_target_column = ''id'',
      fk_ondelete = CASCADE, fk_nullable = False\<rparr>"

definition TriggerExecutionSchema_trigger_id_fk :: foreign_key where
  "TriggerExecutionSchema_trigger_id_fk =
     \<lparr>fk_source = ''trigger_execution'', fk_target = ''trigger'',
      fk_source_column = ''trigger_id'', fk_target_column = ''id'',
      fk_ondelete = CASCADE, fk_nullable = False\<rparr>"

text \<open>
  The relational store the schemas are mapped to, as far as these foreign keys reach:
  the keys of the workspace, user and event source rows, and the trigger and trigger
  execution rows. The store enforces the declared foreign keys.
\<close>

record database =
  db_workspaces :: "UUID list"
  db_users :: "UUID list"
  db_event_sources :: "UUID list"
  db_triggers :: "TriggerSchema list"
  db_executions :: "TriggerExecutionSchema list"

datatype db_error = IntegrityError | NotFound

text \<open>
  What the store does to the rows of a child table when the parent row \<open>parent\<close> is
  deleted, by the declared policy. \<open>column\<close> reads the foreign key column of a child row
  and \<open>set_null\<close> writes \<open>NULL\<close> into it. The result is the rows that stay and the rows
  that are deleted with the parent.
\<close>

definition on_parent_delete ::
  "foreign_key \<Rightarrow> ('r \<Rightarrow> UUID option) \<Rightarrow> ('r \<Rightarrow> 'r) \<Rightarrow> UUID \<Rightarrow> 'r list \<Rightarrow>
   db_error + 'r list \<times> 'r list" where
  "on_parent_delete fk column set_null parent rows =
     (case fk_ondelete fk of
        CASCADE \<Rightarrow>
          Inr (filter (\<lambda>r. column r \<noteq> Some parent) rows,
               filter (\<lambda>r. column r = Some parent) rows)
      | SET_NULL \<Rightarrow>
          if fk_nullable fk then
            Inr (map (\<lambda>r. if column r = Some parent then set_null r else r) rows, [])
          else if list_ex (\<lambda>r. column r = Some parent) rows then Inl IntegrityError
          else Inr (rows, []))"

text \<open>The deletion of trigger rows reaches the executions through their foreign key.\<close>

fun delete_trigger_rows ::
  "UUID list \<Rightarrow> TriggerExecutionSchema list \<Rightarrow> db_error + TriggerExecutionSchema list" where
  "delete_trigger_rows [] executions = Inr executions"
| "delete_trigger_rows (trigger_id # trigger_ids) executions =
     (case on_parent_delete TriggerExecutionSchema_trigger_id_fk
             (\<lambda>r. Some (TriggerExecutionSchema_trigger_id r)) (\<lambda>r. r) trigger_id executions of
        Inl e \<Rightarrow> Inl e
      | Inr (kept, deleted) \<Rightarrow> delete_trigger_rows trigger_ids kept)"

text \<open>
  Deleting the parent rows \<open>parent\<close> of the trigger table under the foreign key \<open>fk\<close>
  of the trigger table.
\<close>

definition delete_trigger_parent ::
  "foreign_key \<Rightarrow> (TriggerSchema \<Rightarrow> UUID option) \<Rightarrow> (TriggerSchema \<Rightarrow> TriggerSchema) \<Rightarrow>
   UUID \<Rightarrow> database \<Rightarrow> db_error + database" where
  "delete_trigger_parent fk column set_null parent db =
     (case on_parent_delete fk column set_null parent (db_triggers db) of
        Inl e \<Rightarrow> Inl e
      | Inr (kept, deleted) \<Rightarrow>
          (case delete_trigger_rows (map TriggerSchema_id deleted) (db_executions db) of
             Inl e \<Rightarrow> Inl e
           | Inr executions \<Rightarrow> Inr (db\<lparr>db_triggers := kept, db_executions := executions\<rparr>)))"

datatype db_op =
    Insert_workspace UUID
  | Insert_user UUID
  | Insert_event_source UUID
  | Insert_trigger TriggerSchema
  | Insert_execution TriggerExecutionSchema
  | Delete_workspace UUID
  | Delete_user UUID
  | Delete_event_source UUID
  | Delete_trigger UUID
  | Delete_execution UUID

fun apply_op :: "database \<Rightarrow> db_op \<Rightarrow> db_error + database" where
  "apply_op db (Insert_workspace w) =
     (if w \<in> set (db_workspaces db) then Inl IntegrityError
      else Inr (db\<lparr>db_workspaces := w # db_workspaces db\<rparr>))"
| "apply_op db (Insert_user u) =
     (if u \<in> set (db_users db) then Inl IntegrityError
      else Inr (db\<lparr>db_users := u # db_users db\<rparr>))"
| "apply_op db (Insert_event_source s) =
     (if s \<in> set (db_event_sources db) then Inl IntegrityError
      else Inr (db\<lparr>db_event_sources := s # db_event_sources db\<rparr>))"
| "apply_op db (Insert_trigger t) =
     (if TriggerSchema_id t \<in> set (map TriggerSchema_id (db_triggers db)) \<or>
         TriggerSchema_workspace_id t \<notin> set (db_workspaces db) \<or>
         TriggerSchema_event_source_id t \<notin> set (db_event_sources db) \<or>
         (case TriggerSchema_user_id t of None \<Rightarrow> False | Some u \<Rightarrow> u \<notin> set (db_users db))
      then Inl IntegrityError
      else Inr (db\<lparr>db_triggers := t # db_triggers db\<rparr>))"
| "apply_op db (Insert_execution x) =
     (if TriggerExecutionSchema_id x \<in> set (map TriggerExecutionSchema_id (db_executions db)) \<or>
         TriggerExecutionSchema_trigger_id x \<notin> set (map TriggerSchema_id (db_triggers db))
      then Inl IntegrityError
      else Inr (db\<lparr>db_executions := x # db_executions db\<rparr>))"
| "apply_op db (Delete_workspace w) =
     (if w \<notin> set (db_workspaces db) then Inl NotFound
      else
        delete_trigger_parent TriggerSchema_workspace_id_fk
          (\<lambda>t. Some (TriggerSchema_workspace_id t)) (\<lambda>t. t) w
          (db\<lparr>db_workspaces := removeAll w (db_workspaces db)\<rparr>))"
| "apply_op db (Delete_user u) =
     (if u \<notin> set (db_users db) then Inl NotFound
      else
        delete_trigger_parent TriggerSchema_user_id_fk
          TriggerSchema_user_id (\<lambda>t. t\<lparr>TriggerSchema_user_id := None\<rparr>) u
          (db\<lparr>db_users := removeAll u (db_users db)\<rparr>))"
| "apply_op db (Delete_event_source s) =
     (if s \<notin> set (db_event_sources db) then Inl NotFound
      else
        delete_trigger_parent TriggerSchema_event_source_id_fk
          (\<lambda>t. Some (TriggerSchema_event_source_id t)) (\<lambda>t. t) s
          (db\<lparr>db_event_sources := removeAll s (db_event_sources db)\<rparr>))"
| "apply_op db (Delete_trigger i) =
     (if i \<notin> set (map TriggerSchema_id (db_triggers db)) then Inl NotFound
      else
        (case delete_trigger_rows [i] (db_executions db) of
           Inl e \<Rightarrow> Inl e
         | Inr executions \<Rightarrow>
             Inr (db\<lparr>db_triggers := filter (\<lambda>t. TriggerSchema_id t \<noteq> i) (db_triggers db),
                      db_executions := executions\<rparr>)))"
| "apply_op db (Delete_execution i) =
     (if i \<notin> set (map TriggerExecutionSchema_id (db_executions db)) then Inl NotFound
      else
        Inr (db\<lparr>db_executions :=
               filter (\<lambda>x. TriggerExecutionSchema_id x \<noteq> i) (db_executions db)\<rparr>))"

fun apply_ops :: "database \<Rightarrow> db_op list \<Rightarrow> db_error + database" where
  "apply_ops db [] = Inr db"
| "apply_ops db (op # ops) =
     (case apply_op db op of Inl e \<Rightarrow> Inl e | Inr db' \<Rightarrow> apply_ops db' ops)"

definition empty_database :: database where
  "empty_database =
     \<lparr>db_workspaces = [], db_users = [], db_event_sources = [], db_triggers = [],
      db_executions = []\<rparr>"

text \<open>Every execution row references a trigger row of the store.\<close>

definition executions_reference_triggers :: "database \<Rightarrow> bool" where
  "executions_reference_triggers db \<longleftrightarrow>
     list_all
       (\<lambda>x. TriggerExecutionSchema_trigger_id x \<in> set (map TriggerSchema_id (db_triggers db)))
       (db_executions db)"

section \<open>Example rows\<close>

text \<open>
  Concrete rows, requests and updates at which the theorems below are instantiated:
  a trigger whose stored filter is the encoding of \<open>{"a": 1}\<close>, and an update that
  supplies the filter \<open>{"b": 2}\<close> and nothing else.
\<close>

definition example_trigger :: TriggerSchema where
  "example_trigger =
     \<lparr>TriggerSchema_id = 3, TriggerSchema_name = ''nightly'', TriggerSchema_created = 5,
      TriggerSchema_updated = 5, TriggerSchema_workspace_id = 1, TriggerSchema_user_id = None,
      TriggerSchema_event_source_id = 2, TriggerSchema_event_filter = str ''eyJhIjogMX0='',
      TriggerSchema_action = str ''e30='', TriggerSchema_action_flavor = ''builtin'',
      TriggerSchema_action_subtype = ''PipelineRun'', TriggerSchema_description = ''d'',
      TriggerSchema_is_active = True\<rparr>"

definition example_execution :: TriggerExecutionSchema where
  "example_execution =
     \<lparr>TriggerExecutionSchema_id = 4, TriggerExecutionSchema_created = 6,
      TriggerExecutionSchema_updated = 6, TriggerExecutionSchema_trigger_id = 3,
      TriggerExecutionSchema_event_metadata = None\<rparr>"

definition example_update :: TriggerUpdate where
  "example_update =
     \<lparr>TriggerUpdate_name = None, TriggerUpdate_description = None,
      TriggerUpdate_event_filter = Some (JDict [(str ''b'', JInt 2)]),
      TriggerUpdate_action = None, TriggerUpdate_is_active = None,
      TriggerUpdate_fields_set = [''event_filter'']\<rparr>"

definition empty_update :: TriggerUpdate where
  "empty_update =
     \<lparr>TriggerUpdate_name = None, TriggerUpdate_description = None,
      TriggerUpdate_event_filter = None, TriggerUpdate_action = None,
      TriggerUpdate_is_active = None, TriggerUpdate_fields_set = []\<rparr>"

text \<open>
  A store with one workspace, one event source, the example trigger and the example
  execution that references it.
\<close>

definition example_database :: database where
  "example_database =
     \<lparr>db_workspaces = [1], db_users = [], db_event_sources = [2],
      db_triggers = [example_trigger], db_executions = [example_execution]\<rparr>"

section \<open>Properties of the RBAC model\<close>

lemma ResourceType_of_value_value: "ResourceType_of_value (ResourceType_value t) = Some t"
  by (cases t) (simp_all add: ResourceType_of_value_def ResourceType_members_def)

lemma ResourceType_of_value_SomeD:
  "ResourceType_of_value s = Some t \<Longrightarrow> s = ResourceType_value t"
  unfolding ResourceType_of_value_def by (auto simp: find_Some_iff)

text \<open>
  Claim C10. Every resource type satisfies exactly one of \<open>is_workspace_scoped\<close>,
  \<open>is_flexible_scoped\<close> and \<open>is_unscoped\<close>: of the three predicates, the number that
  hold of a resource type is one.
\<close>

theorem ResourceType_exactly_one_scope:
  "length (filter (\<lambda>p. p t) [is_workspace_scoped, is_flexible_scoped, is_unscoped]) = 1"
  by (cases t) (simp_all add: is_workspace_scoped_def is_flexible_scoped_def is_unscoped_def)

theorem ResourceType_exactly_one_scope_witness:
  "is_workspace_scoped TRIGGER \<and> \<not> is_flexible_scoped TRIGGER \<and> \<not> is_unscoped TRIGGER \<and>
   is_flexible_scoped STACK \<and> \<not> is_workspace_scoped STACK \<and> \<not> is_unscoped STACK \<and>
   is_unscoped SERVICE_ACCOUNT \<and> \<not> is_workspace_scoped SERVICE_ACCOUNT \<and>
   \<not> is_flexible_scoped SERVICE_ACCOUNT"
  using ResourceType_exactly_one_scope [of TRIGGER] ResourceType_exactly_one_scope [of STACK]
    ResourceType_exactly_one_scope [of SERVICE_ACCOUNT]
  by (simp add: is_workspace_scoped_def is_flexible_scoped_def is_unscoped_def)



section \<open>Properties of the persisted form\<close>

subsection \<open>Evaluation\<close>

lemma decimal_digits_small [simp]: "n < 10 \<Longrightarrow> decimal_digits n = [ord CHR ''0'' + n]"
  by (simp add: decimal_digits.simps)

lemma decimal_digits_large [simp]:
  "\<not> n < 10 \<Longrightarrow> decimal_digits n = decimal_digits (n div 10) @ [ord CHR ''0'' + n mod 10]"
  by (subst decimal_digits.simps) simp

lemma hex_digits_small [simp]: "n < 16 \<Longrightarrow> hex_digits n = [hex_digit n]"
  by (simp add: hex_digits.simps)

lemma hex_digits_large [simp]:
  "\<not> n < 16 \<Longrightarrow> hex_digits n = hex_digits (n div 16) @ [hex_digit (n mod 16)]"
  by (subst hex_digits.simps) simp

lemmas char_codes = ord_def str_def QUOTE_def BACKSLASH_CHAR_def

lemmas encode_eval =
  encode_document_def json_dumps_def b64encode_def utf8_encode_char_def
  encode_basestring_ascii_def escape_def replace_def ESCAPE_DCT_def format_04x_def hex_digit_def
  int_repr_def table_b2a_base64_def BASE64_PAD_def char_codes

lemmas decode_eval =
  decode_document_def b64decode_def table_a2b_base64_def append_byte_def append_str_def
  is_continuation_def json_loads_def skip_ws_def WHITESPACE_STR_def scan_atom_def
  object_start_def object_colon_def object_next_def array_start_def array_next_def
  match_number_def match_integer_def match_frac_def match_exp_def is_digit_def
  parse_int_def digits_value_def dict_def append_char_def BACKSLASH_def hex_value_def
  decode_uXXXX_def BASE64_PAD_def char_codes

subsection \<open>The serialization is ASCII, so encoding a document never fails\<close>

lemma decimal_digits_is_digit: "c \<in> set (decimal_digits n) \<Longrightarrow> is_digit c"
proof (induction n arbitrary: c rule: decimal_digits.induct)
  case (1 n)
  have "n mod 10 < 10" by simp
  with "1.prems" "1.IH" show ?case
    by (cases "n < 10") (auto simp: is_digit_def ord_def)
qed

lemma hex_digit_ascii: "d < 16 \<Longrightarrow> hex_digit d < 128"
  by (simp add: hex_digit_def ord_def)

lemma hex_digits_ascii: "c \<in> set (hex_digits n) \<Longrightarrow> c < 128"
proof (induction n arbitrary: c rule: hex_digits.induct)
  case (1 n)
  have "hex_digit (n mod 16) < 128" by (rule hex_digit_ascii) simp
  with "1.prems" "1.IH" show ?case
    by (cases "n < 16") (auto simp: hex_digit_ascii)
qed

lemma format_04x_ascii: "c \<in> set (format_04x n) \<Longrightarrow> c < 128"
  by (auto simp: format_04x_def ord_def dest: hex_digits_ascii)

lemma replace_ascii: "x \<in> set (replace c) \<Longrightarrow> x < 128"
  by (auto simp: replace_def ESCAPE_DCT_def char_codes Let_def
      split: option.splits if_splits dest: format_04x_ascii)

lemma encode_basestring_ascii_ascii: "x \<in> set (encode_basestring_ascii s) \<Longrightarrow> x < 128"
  by (auto simp: encode_basestring_ascii_def escape_def QUOTE_def dest: replace_ascii
      split: if_splits)

lemma int_repr_ascii: "x \<in> set (int_repr i) \<Longrightarrow> x < 128"
  by (auto simp: int_repr_def ord_def is_digit_def dest!: decimal_digits_is_digit
      split: if_splits)

lemma iterencode_ascii:
  "\<forall>x \<in> set (iterencode v). x < 128"
  "\<forall>x \<in> set (iterencode_list vs). x < 128"
  "\<forall>x \<in> set (iterencode_dict kvs). x < 128"
  by (induction v and vs and kvs rule: iterencode_iterencode_list_iterencode_dict.induct)
     (auto simp: char_codes dest: int_repr_ascii encode_basestring_ascii_ascii)

lemma utf8_encode_ascii: "\<forall>x \<in> set s. x < 128 \<Longrightarrow> utf8_encode s = Inr s"
  by (induction s) (simp_all add: utf8_encode_char_def)


lemma encode_document_eq: "encode_document d = Inr (b64encode (json_dumps d))"
  by (simp add: encode_document_def json_dumps_def utf8_encode_ascii iterencode_ascii)

lemma encode_b_2: "encode_document (JDict [(str ''b'', JInt 2)]) = Inr (str ''eyJiIjogMn0='')"
  by (simp add: encode_eval)

lemma decode_b_2: "decode_document (str ''eyJiIjogMn0='') = Inr (JDict [(str ''b'', JInt 2)])"
  by (simp add: decode_eval)

lemma encode_empty_dict: "encode_document (JDict []) = Inr (str ''e30='')"
  by (simp add: encode_eval)


subsection \<open>Strings: \<open>scanstring\<close> reads back what \<open>encode_basestring_ascii\<close> wrote\<close>


lemma format_04x_eq:
  assumes "n < 65536"
  shows "format_04x n =
    [hex_digit (n div 4096), hex_digit (n div 256 mod 16), hex_digit (n div 16 mod 16),
     hex_digit (n mod 16)]"
proof -
  have h0: "hex_digit 0 = ord CHR ''0''" by (simp add: hex_digit_def)
  have r3: "\<And>x::nat. replicate 3 x = [x, x, x]" by (simp add: numeral_3_eq_3)
  have r2: "\<And>x::nat. replicate 2 x = [x, x]" by (simp add: numeral_2_eq_2)
  consider "n < 16" | "16 \<le> n" "n < 256" | "256 \<le> n" "n < 4096" | "4096 \<le> n"
    by linarith
  then show ?thesis
  proof cases
    case 1
    then show ?thesis by (simp add: format_04x_def h0 r2 r3)
  next
    case 2
    then have a: "\<not> n < 16" and b: "n div 16 < 16" by auto
    from 2 have "n div 256 = 0" by simp
    with a b show ?thesis by (simp add: format_04x_def h0 r2 r3)
  next
    case 3
    then have a: "\<not> n < 16" and b: "\<not> n div 16 < 16" and c: "n div 16 div 16 < 16" by auto
    have d: "n div 16 div 16 = n div 256" by (simp add: div_mult2_eq)
    from 3 have "n div 4096 = 0" by simp
    with a b c d show ?thesis by (simp add: format_04x_def h0 r2 r3)
  next
    case 4
    with assms have a: "\<not> n < 16" and b: "\<not> n div 16 < 16" and c: "\<not> n div 16 div 16 < 16"
      and e: "n div 16 div 16 div 16 < 16" by auto
    have d: "n div 16 div 16 = n div 256" "n div 16 div 16 div 16 = n div 4096"
      by (simp_all add: div_mult2_eq)
    from a b c e d show ?thesis by (simp add: format_04x_def)
  qed
qed








lemma drop_4_format_04x: "n < 65536 \<Longrightarrow> drop 4 (format_04x n @ t) = t"
  by (simp add: format_04x_eq)

lemma drop_6_format_04x: "n < 65536 \<Longrightarrow> drop 6 (format_04x n @ t) = drop 2 t"
  by (simp add: format_04x_eq)

lemma drop_10_format_04x:
  "n < 65536 \<Longrightarrow> m < 65536 \<Longrightarrow> drop 10 (format_04x n @ a # b # format_04x m @ t) = t"
  by (simp add: format_04x_eq)











subsection \<open>Integers\<close>














subsection \<open>Dictionaries and the first character of a value\<close>


lemma skip_ws_space: "c \<notin> set WHITESPACE_STR \<Longrightarrow> skip_ws (0x20 # c # s) = c # s"
  by (simp add: skip_ws_def WHITESPACE_STR_def)









subsection \<open>One step of each parser function\<close>














subsection \<open>\<open>json.loads\<close> reads back what \<open>json.dumps\<close> wrote\<close>




subsection \<open>\<open>b64decode\<close> reads back what \<open>b64encode\<close> wrote\<close>












section \<open>Properties of the trigger schemas\<close>

text \<open>
  Claim C8. For every request, \<open>from_request\<close> returns a schema, and the schema is
  active, whatever the request holds.
\<close>

theorem from_request_is_active:
  "\<exists>schema. from_request new_id now request = Inr schema \<and> TriggerSchema_is_active schema"
  by (simp add: from_request_def encode_document_eq)

theorem from_request_is_active_witness:
  "\<exists>schema.
     from_request 3 5
       \<lparr>TriggerRequest_name = ''nightly'', TriggerRequest_workspace = 1,
        TriggerRequest_user = None, TriggerRequest_action = JDict [],
        TriggerRequest_action_flavor = ''builtin'',
        TriggerRequest_action_subtype = ''PipelineRun'',
        TriggerRequest_event_source_id = 2,
        TriggerRequest_event_filter = JDict [(str ''b'', JInt 2)],
        TriggerRequest_description = ''d''\<rparr> = Inr schema \<and>
     TriggerSchema_is_active schema \<and>
     TriggerSchema_event_filter schema = str ''eyJiIjogMn0='' \<and>
     TriggerSchema_action schema = str ''e30=''"
  using from_request_is_active [of 3 5
      "\<lparr>TriggerRequest_name = ''nightly'', TriggerRequest_workspace = 1,
        TriggerRequest_user = None, TriggerRequest_action = JDict [],
        TriggerRequest_action_flavor = ''builtin'',
        TriggerRequest_action_subtype = ''PipelineRun'',
        TriggerRequest_event_source_id = 2,
        TriggerRequest_event_filter = JDict [(str ''b'', JInt 2)],
        TriggerRequest_description = ''d''\<rparr>"]
  by (auto simp: from_request_def encode_b_2 encode_empty_dict)



text \<open>
  Claim C9. For an execution row whose \<open>event_metadata\<close> is \<open>None\<close>, \<open>to_model\<close> with
  \<open>include_metadata\<close> returns a response, and its event metadata is the empty document:
  nothing is decoded, neither for the row nor for its trigger.
\<close>

theorem execution_to_model_no_event_metadata:
  assumes "TriggerExecutionSchema_event_metadata self = None"
  shows "\<exists>response.
           execution_to_model flavor self trigger rel True include_resources = Inr response \<and>
           TriggerExecutionResponse_metadata response =
             Some \<lparr>TriggerExecutionResponseMetadata_event_metadata = JDict []\<rparr>"
  using assms by (simp add: execution_to_model_def to_model_def Let_def)

theorem execution_to_model_no_event_metadata_witness:
  "\<exists>response.
     execution_to_model (\<lambda>e. ''webhook'')
       \<lparr>TriggerExecutionSchema_id = 4, TriggerExecutionSchema_created = 6,
        TriggerExecutionSchema_updated = 6, TriggerExecutionSchema_trigger_id = 3,
        TriggerExecutionSchema_event_metadata = None\<rparr>
       \<lparr>TriggerSchema_id = 3, TriggerSchema_name = ''nightly'', TriggerSchema_created = 5,
        TriggerSchema_updated = 5, TriggerSchema_workspace_id = 1,
        TriggerSchema_user_id = None, TriggerSchema_event_source_id = 2,
        TriggerSchema_event_filter = [], TriggerSchema_action = [],
        TriggerSchema_action_flavor = ''builtin'',
        TriggerSchema_action_subtype = ''PipelineRun'', TriggerSchema_description = ''d'',
        TriggerSchema_is_active = True\<rparr>
       \<lparr>TriggerSchema_workspace = (1::nat), TriggerSchema_user = (None::nat option),
        TriggerSchema_event_source = (2::nat)\<rparr> True False = Inr response \<and>
     TriggerExecutionResponse_metadata response =
       Some \<lparr>TriggerExecutionResponseMetadata_event_metadata = JDict []\<rparr>"
  using execution_to_model_no_event_metadata [of
      "\<lparr>TriggerExecutionSchema_id = 4, TriggerExecutionSchema_created = 6,
        TriggerExecutionSchema_updated = 6, TriggerExecutionSchema_trigger_id = 3,
        TriggerExecutionSchema_event_metadata = None\<rparr>"
      "\<lambda>e. ''webhook''"
      "\<lparr>TriggerSchema_id = 3, TriggerSchema_name = ''nightly'', TriggerSchema_created = 5,
        TriggerSchema_updated = 5, TriggerSchema_workspace_id = 1,
        TriggerSchema_user_id = None, TriggerSchema_event_source_id = 2,
        TriggerSchema_event_filter = [], TriggerSchema_action = [],
        TriggerSchema_action_flavor = ''builtin'',
        TriggerSchema_action_subtype = ''PipelineRun'', TriggerSchema_description = ''d'',
        TriggerSchema_is_active = True\<rparr>"
      "\<lparr>TriggerSchema_workspace = (1::nat), TriggerSchema_user = (None::nat option),
        TriggerSchema_event_source = (2::nat)\<rparr>" False]
  by simp

lemma update_eq:
  "update now self u =
     Inr (self\<lparr>
       TriggerSchema_name :=
         (case supplied u ''name'' (TriggerUpdate_name u) of
            Some v \<Rightarrow> v | None \<Rightarrow> TriggerSchema_name self),
       TriggerSchema_description :=
         (case supplied u ''description'' (TriggerUpdate_description u) of
            Some v \<Rightarrow> v | None \<Rightarrow> TriggerSchema_description self),
       TriggerSchema_event_filter :=
         (case supplied u ''event_filter'' (TriggerUpdate_event_filter u) of
            Some d \<Rightarrow> b64encode (json_dumps d) | None \<Rightarrow> TriggerSchema_event_filter self),
       TriggerSchema_action :=
         (case supplied u ''action'' (TriggerUpdate_action u) of
            Some d \<Rightarrow> b64encode (json_dumps d) | None \<Rightarrow> TriggerSchema_action self),
       TriggerSchema_is_active :=
         (case supplied u ''is_active'' (TriggerUpdate_is_active u) of
            Some v \<Rightarrow> v | None \<Rightarrow> TriggerSchema_is_active self),
       TriggerSchema_updated := now\<rparr>)"
  by (simp add: update_def TriggerUpdate_dict_def update_item_def setattr_def
      encode_document_eq supplied_def optional_document_def split: option.splits)

lemma decode_a_1: "decode_document (str ''eyJhIjogMX0='') = Inr (JDict [(str ''a'', JInt 1)])"
  by (simp add: decode_eval)

text \<open>
  Claim C3, as amended. \<open>update\<close> always returns, and the row it returns differs from
  the row it was given in at most these columns: each of \<open>name\<close>, \<open>description\<close>,
  \<open>event_filter\<close>, \<open>action\<close> and \<open>is_active\<close> that the update supplies with a value
  other than \<open>None\<close> takes the supplied value (a document in its persisted form), and
  \<open>updated\<close> is set to the current time. A field that is unset, or supplied as \<open>None\<close>,
  keeps its value, and so does every other column.
\<close>

theorem update_changes_supplied_fields_and_updated:
  "update now self u =
     Inr (self\<lparr>
       TriggerSchema_name :=
         (case supplied u ''name'' (TriggerUpdate_name u) of
            Some v \<Rightarrow> v | None \<Rightarrow> TriggerSchema_name self),
       TriggerSchema_description :=
         (case supplied u ''description'' (TriggerUpdate_description u) of
            Some v \<Rightarrow> v | None \<Rightarrow> TriggerSchema_description self),
       TriggerSchema_event_filter :=
         (case supplied u ''event_filter'' (TriggerUpdate_event_filter u) of
            Some d \<Rightarrow> b64encode (json_dumps d) | None \<Rightarrow> TriggerSchema_event_filter self),
       TriggerSchema_action :=
         (case supplied u ''action'' (TriggerUpdate_action u) of
            Some d \<Rightarrow> b64encode (json_dumps d) | None \<Rightarrow> TriggerSchema_action self),
       TriggerSchema_is_active :=
         (case supplied u ''is_active'' (TriggerUpdate_is_active u) of
            Some v \<Rightarrow> v | None \<Rightarrow> TriggerSchema_is_active self),
       TriggerSchema_updated := now\<rparr>)"
  by (rule update_eq)

theorem update_changes_supplied_fields_and_updated_witness:
  "update 9 example_trigger example_update =
     Inr (example_trigger\<lparr>TriggerSchema_event_filter := str ''eyJiIjogMn0='',
                          TriggerSchema_updated := 9\<rparr>)"
  using update_changes_supplied_fields_and_updated [of 9 example_trigger example_update]
    encode_b_2
  by (simp add: encode_document_eq supplied_def example_update_def example_trigger_def)

text \<open>
  Claim C3, as stated, fails: an update that supplies no field changes the row, since
  \<open>updated\<close> is set to the current time.
\<close>

theorem update_changes_unsupplied_updated:
  "TriggerUpdate_dict empty_update = [] \<and>
   update 9 example_trigger empty_update = Inr (example_trigger\<lparr>TriggerSchema_updated := 9\<rparr>) \<and>
   TriggerSchema_updated example_trigger = 5"
  by (simp add: update_eq supplied_def TriggerUpdate_dict_def
      empty_update_def example_trigger_def)

text \<open>
  Claim C2. When an update supplies an event filter document, \<open>update\<close> returns a row
  whose stored filter is the persisted form of that document: the same whatever row
  is updated, whatever filter it stored and whenever. After an update with the filter
  \<open>{"b": 2}\<close> the stored filter decodes to exactly \<open>{"b": 2}\<close>.
\<close>

theorem update_replaces_event_filter:
  assumes "''event_filter'' \<in> set (TriggerUpdate_fields_set u)"
    and "TriggerUpdate_event_filter u = Some d"
  shows "\<exists>self1' self2'.
           update now1 self1 u = Inr self1' \<and> update now2 self2 u = Inr self2' \<and>
           TriggerSchema_event_filter self1' = TriggerSchema_event_filter self2' \<and>
           encode_document d = Inr (TriggerSchema_event_filter self1') \<and>
           (d = JDict [(str ''b'', JInt 2)] \<longrightarrow>
              decode_document (TriggerSchema_event_filter self1') =
                Inr (JDict [(str ''b'', JInt 2)]))"
proof -
  have "d = JDict [(str ''b'', JInt 2)] \<Longrightarrow>
      decode_document (b64encode (json_dumps d)) = Inr (JDict [(str ''b'', JInt 2)])"
    using encode_b_2 by (simp add: encode_document_eq decode_b_2)
  with assms show ?thesis
    by (simp add: update_eq supplied_def encode_document_eq)
qed

theorem update_replaces_event_filter_witness:
  "\<exists>self'.
     update 9 example_trigger example_update = Inr self' \<and>
     decode_document (TriggerSchema_event_filter example_trigger) =
       Inr (JDict [(str ''a'', JInt 1)]) \<and>
     decode_document (TriggerSchema_event_filter self') = Inr (JDict [(str ''b'', JInt 2)])"
  using update_replaces_event_filter
    [of example_update "JDict [(str ''b'', JInt 2)]" 9 example_trigger 9 example_trigger]
  by (auto simp: example_update_def example_trigger_def decode_a_1)

section \<open>Properties of the foreign keys\<close>

lemma delete_trigger_rows_eq:
  "delete_trigger_rows ids executions =
     Inr (filter (\<lambda>x. TriggerExecutionSchema_trigger_id x \<notin> set ids) executions)"
proof (induction ids arbitrary: executions)
  case Nil
  show ?case by simp
next
  case (Cons i ids)
  show ?case
    by (simp add: on_parent_delete_def TriggerExecutionSchema_trigger_id_fk_def Cons.IH
        conj_commute)
qed

lemma delete_trigger_parent_CASCADE:
  assumes "fk_ondelete fk = CASCADE"
  shows "delete_trigger_parent fk column set_null parent db =
     Inr (db\<lparr>db_triggers := filter (\<lambda>r. column r \<noteq> Some parent) (db_triggers db),
              db_executions :=
                filter (\<lambda>x. TriggerExecutionSchema_trigger_id x \<notin>
                    TriggerSchema_id ` {r \<in> set (db_triggers db). column r = Some parent})
                  (db_executions db)\<rparr>)"
  using assms
  by (simp add: delete_trigger_parent_def on_parent_delete_def delete_trigger_rows_eq)

lemma delete_trigger_parent_SET_NULL:
  assumes "fk_ondelete fk = SET_NULL" and "fk_nullable fk"
  shows "delete_trigger_parent fk column set_null parent db =
     Inr (db\<lparr>db_triggers :=
                map (\<lambda>r. if column r = Some parent then set_null r else r) (db_triggers db),
              db_executions := db_executions db\<rparr>)"
  using assms
  by (simp add: delete_trigger_parent_def on_parent_delete_def)

lemma cascade_preserves:
  assumes "executions_reference_triggers db"
  shows "executions_reference_triggers
     (db\<lparr>db_triggers := filter (\<lambda>r. column r \<noteq> Some parent) (db_triggers db),
          db_executions :=
            filter (\<lambda>x. TriggerExecutionSchema_trigger_id x \<notin>
                TriggerSchema_id ` {r \<in> set (db_triggers db). column r = Some parent})
              (db_executions db)\<rparr>)"
  unfolding executions_reference_triggers_def list_all_iff
proof
  fix x
  assume "x \<in> set (db_executions
     (db\<lparr>db_triggers := filter (\<lambda>r. column r \<noteq> Some parent) (db_triggers db),
          db_executions :=
            filter (\<lambda>x. TriggerExecutionSchema_trigger_id x \<notin>
                TriggerSchema_id ` {r \<in> set (db_triggers db). column r = Some parent})
              (db_executions db)\<rparr>))"
  then have x: "x \<in> set (db_executions db)"
    and not_deleted: "TriggerExecutionSchema_trigger_id x \<notin>
        TriggerSchema_id ` {r \<in> set (db_triggers db). column r = Some parent}"
    by simp_all
  from assms x obtain t where t: "t \<in> set (db_triggers db)"
    and id: "TriggerSchema_id t = TriggerExecutionSchema_trigger_id x"
    by (auto simp: executions_reference_triggers_def list_all_iff)
  from not_deleted t id have "column t \<noteq> Some parent" by force
  with t id show "TriggerExecutionSchema_trigger_id x \<in>
      set (map TriggerSchema_id (db_triggers
        (db\<lparr>db_triggers := filter (\<lambda>r. column r \<noteq> Some parent) (db_triggers db),
             db_executions :=
               filter (\<lambda>x. TriggerExecutionSchema_trigger_id x \<notin>
                   TriggerSchema_id ` {r \<in> set (db_triggers db). column r = Some parent})
                 (db_executions db)\<rparr>)))"
    by force
qed

lemma executions_reference_triggers_cong:
  assumes "executions_reference_triggers db"
    and "set (db_executions db') \<subseteq> set (db_executions db)"
    and "TriggerSchema_id ` set (db_triggers db) \<subseteq> TriggerSchema_id ` set (db_triggers db')"
  shows "executions_reference_triggers db'"
  using assms unfolding executions_reference_triggers_def list_all_iff set_map by blast

lemma apply_op_preserves:
  assumes inv: "executions_reference_triggers db" and op: "apply_op db op = Inr db'"
  shows "executions_reference_triggers db'"
proof (cases op)
  case (Insert_workspace w)
  with op inv show ?thesis
    by (auto split: if_splits elim!: executions_reference_triggers_cong)
next
  case (Insert_user u)
  with op inv show ?thesis
    by (auto split: if_splits elim!: executions_reference_triggers_cong)
next
  case (Insert_event_source s)
  with op inv show ?thesis
    by (auto split: if_splits elim!: executions_reference_triggers_cong)
next
  case (Insert_trigger t)
  with op inv show ?thesis
    by (auto split: if_splits elim!: executions_reference_triggers_cong)
next
  case (Insert_execution x)
  with op inv show ?thesis
    by (auto simp: executions_reference_triggers_def split: if_splits)
next
  case (Delete_workspace w)
  with op have "db' = (db\<lparr>db_workspaces := removeAll w (db_workspaces db)\<rparr>)
      \<lparr>db_triggers := filter (\<lambda>r. Some (TriggerSchema_workspace_id r) \<noteq> Some w)
         (db_triggers (db\<lparr>db_workspaces := removeAll w (db_workspaces db)\<rparr>)),
       db_executions :=
         filter (\<lambda>x. TriggerExecutionSchema_trigger_id x \<notin>
             TriggerSchema_id ` {r \<in> set (db_triggers
                (db\<lparr>db_workspaces := removeAll w (db_workspaces db)\<rparr>)).
                  Some (TriggerSchema_workspace_id r) = Some w})
           (db_executions (db\<lparr>db_workspaces := removeAll w (db_workspaces db)\<rparr>))\<rparr>"
    by (simp add: delete_trigger_parent_CASCADE TriggerSchema_workspace_id_fk_def
        split: if_splits)
  moreover from inv
  have "executions_reference_triggers (db\<lparr>db_workspaces := removeAll w (db_workspaces db)\<rparr>)"
    by (simp add: executions_reference_triggers_def)
  ultimately show ?thesis by (simp only: cascade_preserves)
next
  case (Delete_user u)
  with op have "db' = db\<lparr>db_users := removeAll u (db_users db),
       db_triggers :=
         map (\<lambda>r. if TriggerSchema_user_id r = Some u then r\<lparr>TriggerSchema_user_id := None\<rparr>
                   else r) (db_triggers db)\<rparr>"
    by (simp add: delete_trigger_parent_SET_NULL TriggerSchema_user_id_fk_def split: if_splits)
  moreover have "map TriggerSchema_id
      (map (\<lambda>r. if TriggerSchema_user_id r = Some u then r\<lparr>TriggerSchema_user_id := None\<rparr>
                 else r) (db_triggers db)) = map TriggerSchema_id (db_triggers db)"
    by (induction "db_triggers db") simp_all
  ultimately show ?thesis
    using inv by (simp only: executions_reference_triggers_def) simp
next
  case (Delete_event_source s)
  with op have "db' = (db\<lparr>db_event_sources := removeAll s (db_event_sources db)\<rparr>)
      \<lparr>db_triggers := filter (\<lambda>r. Some (TriggerSchema_event_source_id r) \<noteq> Some s)
         (db_triggers (db\<lparr>db_event_sources := removeAll s (db_event_sources db)\<rparr>)),
       db_executions :=
         filter (\<lambda>x. TriggerExecutionSchema_trigger_id x \<notin>
             TriggerSchema_id ` {r \<in> set (db_triggers
                (db\<lparr>db_event_sources := removeAll s (db_event_sources db)\<rparr>)).
                  Some (TriggerSchema_event_source_id r) = Some s})
           (db_executions (db\<lparr>db_event_sources := removeAll s (db_event_sources db)\<rparr>))\<rparr>"
    by (simp add: delete_trigger_parent_CASCADE TriggerSchema_event_source_id_fk_def
        split: if_splits)
  moreover from inv
  have "executions_reference_triggers
      (db\<lparr>db_event_sources := removeAll s (db_event_sources db)\<rparr>)"
    by (simp add: executions_reference_triggers_def)
  ultimately show ?thesis by (simp only: cascade_preserves)
next
  case (Delete_trigger i)
  with op have db': "db' = db\<lparr>db_triggers := filter (\<lambda>t. TriggerSchema_id t \<noteq> i) (db_triggers db),
       db_executions := filter (\<lambda>x. TriggerExecutionSchema_trigger_id x \<noteq> i) (db_executions db)\<rparr>"
    by (simp add: delete_trigger_rows_eq split: if_splits)
  show ?thesis
    unfolding db' using inv
    by (auto simp: executions_reference_triggers_def list_all_iff)
next
  case (Delete_execution i)
  with op inv show ?thesis
    by (auto split: if_splits elim!: executions_reference_triggers_cong)
qed

lemma apply_ops_preserves:
  assumes "executions_reference_triggers db" and "apply_ops db ops = Inr db'"
  shows "executions_reference_triggers db'"
  using assms
proof (induction ops arbitrary: db)
  case Nil
  then show ?case by simp
next
  case (Cons op ops)
  then show ?case by (auto split: sum.splits dest: apply_op_preserves)
qed


lemma delete_trigger_removes:
  assumes "apply_op db (Delete_trigger i) = Inr db'"
  shows "i \<notin> set (map TriggerExecutionSchema_trigger_id (db_executions db')) \<and>
         i \<notin> set (map TriggerSchema_id (db_triggers db'))"
  using assms by (auto simp: delete_trigger_rows_eq split: if_splits)

lemma example_database_reachable:
  "apply_ops empty_database
     [Insert_workspace 1, Insert_event_source 2, Insert_trigger example_trigger,
      Insert_execution example_execution] = Inr example_database"
  by (simp add: empty_database_def example_database_def example_trigger_def
      example_execution_def)

text \<open>
  Deleting the event source of the example trigger deletes the trigger, and with it
  the execution that references it: the foreign key \<open>event_source_id\<close> is declared with
  \<open>ondelete="CASCADE"\<close>.
\<close>

lemma delete_event_source_deletes_trigger:
  "apply_op example_database (Delete_event_source 2) =
     Inr \<lparr>db_workspaces = [1], db_users = [], db_event_sources = [], db_triggers = [],
          db_executions = []\<rparr>"
  by (simp add: example_database_def example_trigger_def example_execution_def
      delete_trigger_parent_def on_parent_delete_def TriggerSchema_event_source_id_fk_def
      TriggerExecutionSchema_trigger_id_fk_def)




text \<open>
  Claim C6. The foreign key \<open>trigger_id\<close> of an execution is declared non-null with the
  policy \<open>CASCADE\<close>. In every state \<open>db\<close> that the store reaches from the empty store,
  every execution references a trigger of the store; the same holds after one more
  operation, and when that operation deletes the trigger \<open>i\<close>, neither the trigger nor
  an execution that references it is left.
\<close>

theorem execution_lifetime_bounded_by_trigger:
  assumes "apply_ops empty_database ops = Inr db"
    and "apply_op db op = Inr db'"
  shows "\<not> fk_nullable TriggerExecutionSchema_trigger_id_fk \<and>
         fk_ondelete TriggerExecutionSchema_trigger_id_fk = CASCADE \<and>
         executions_reference_triggers db \<and>
         executions_reference_triggers db' \<and>
         (\<forall>i. op = Delete_trigger i \<longrightarrow>
            i \<notin> set (map TriggerExecutionSchema_trigger_id (db_executions db')) \<and>
            i \<notin> set (map TriggerSchema_id (db_triggers db')))"
proof -
  have "executions_reference_triggers empty_database"
    by (simp add: executions_reference_triggers_def empty_database_def)
  from this assms(1) have db: "executions_reference_triggers db"
    by (rule apply_ops_preserves)
  from this assms(2) have "executions_reference_triggers db'"
    by (rule apply_op_preserves)
  with db assms(2) show ?thesis
    by (auto simp: TriggerExecutionSchema_trigger_id_fk_def dest: delete_trigger_removes)
qed

theorem execution_lifetime_bounded_by_trigger_witness:
  "apply_ops empty_database
     [Insert_workspace 1, Insert_event_source 2, Insert_trigger example_trigger,
      Insert_execution example_execution] = Inr example_database \<and>
   executions_reference_triggers example_database \<and>
   db_executions example_database = [example_execution] \<and>
   apply_op example_database (Delete_trigger 3) =
     Inr \<lparr>db_workspaces = [1], db_users = [], db_event_sources = [2], db_triggers = [],
          db_executions = []\<rparr>"
  using execution_lifetime_bounded_by_trigger
    [of "[Insert_workspace 1, Insert_event_source 2, Insert_trigger example_trigger,
          Insert_execution example_execution]" example_database "Delete_trigger 3"
      "\<lparr>db_workspaces = [1], db_users = [], db_event_sources = [2], db_triggers = [],
        db_executions = []\<rparr>"]
    example_database_reachable
  by (simp add: example_database_def example_trigger_def example_execution_def
      delete_trigger_rows_eq)

end
